theory Spec2Isabelle
  imports Complex_Main "HOL-Library.Log_Nat"
begin

section \<open>Documents\<close>

text \<open>
  The three routers (\<^verbatim>\<open>cart.router.js\<close>, \<^verbatim>\<open>user.router.js\<close> and the product router)
  are thin handlers over three Mongoose models. The schema files
  (\<^verbatim>\<open>../models/*.model\<close>) are not among the router sources, so the document types
  below follow the field lists of the data model (and of the routers' OpenAPI
  comments). Fields of a cart item are prefixed \<open>c_\<close>, of a user \<open>u_\<close>, of a product
  \<open>p_\<close>, of the body of a user-create request \<open>b_\<close>; \<open>c_id\<close>, \<open>u_id\<close>, \<open>p_id\<close> are
  the documents' \<^verbatim>\<open>_id\<close>.

  An ObjectId is kept abstract (a string); a number that the handlers compute with
  (the quantity) is a JavaScript number, a number they only carry (the price) is the
  rational it stands for.
\<close>

type_synonym oid = string

subsection \<open>JavaScript numbers\<close>

text \<open>
  A JavaScript number is an IEEE 754 double: a finite value (a rational; the numbers of
  a request and of a stored document are doubles already, and a sum is rounded to one),
  an infinity or NaN. The two zeros are one value here: no handler tells them apart, and
  JSON writes both as \<^verbatim>\<open>0\<close>.
\<close>

datatype number = Num rat | Infinity | MinusInfinity | NaN

definition pow2 :: "int \<Rightarrow> rat" where
  "pow2 e = (if 0 \<le> e then 2 ^ nat e else 1 / 2 ^ nat (- e))"

text \<open>The binary exponent of a positive rational \<open>a\<close>: the \<open>e\<close> with
  \<open>2\<^sup>e \<le> a < 2\<^sup>e\<^sup>+\<^sup>1\<close>, from the bit lengths of numerator and denominator.\<close>

definition exponent :: "rat \<Rightarrow> int" where
  "exponent a = (case quotient_of a of (p, q) \<Rightarrow>
      (let d = bitlen p - bitlen q in if pow2 d \<le> a then d else d - 1))"

definition round_half_even :: "rat \<Rightarrow> int" where
  "round_half_even q =
     (let f = \<lfloor>q\<rfloor>; d = q - of_int f
      in if d < 1 / 2 then f else if 1 / 2 < d then f + 1 else if even f then f else f + 1)"

text \<open>
  The double nearest to a rational, ties to the even significand: 53 significant bits,
  the exponent not below that of the subnormal numbers, and an infinity when the
  rounded value reaches \<open>2\<^sup>1\<^sup>0\<^sup>2\<^sup>4\<close>.
\<close>

definition round_double :: "rat \<Rightarrow> number" where
  "round_double x =
     (if x = 0 then Num 0
      else (let a = \<bar>x\<bar>;
                e = max (exponent a) (- 1022);
                ulp = pow2 (e - 52);
                r = of_int (round_half_even (a / ulp)) * ulp
            in if pow2 1024 \<le> r then (if 0 < x then Infinity else MinusInfinity)
               else Num (if 0 < x then r else - r)))"

text \<open>JavaScript's \<^verbatim>\<open>+\<close> on two numbers.\<close>

fun js_plus :: "number \<Rightarrow> number \<Rightarrow> number" where
  "js_plus (Num a) (Num b) = round_double (a + b)"
| "js_plus NaN _ = NaN"
| "js_plus _ NaN = NaN"
| "js_plus Infinity MinusInfinity = NaN"
| "js_plus MinusInfinity Infinity = NaN"
| "js_plus Infinity _ = Infinity"
| "js_plus _ Infinity = Infinity"
| "js_plus MinusInfinity _ = MinusInfinity"
| "js_plus _ MinusInfinity = MinusInfinity"

subsection \<open>The schemas\<close>

text \<open>Modelled from the spec: the Cart schema (productId, name, email, image, price,
  quantity). A request body of a cart-create is a \<open>cart_fields\<close>; a stored document has
  the generated \<^verbatim>\<open>_id\<close> besides.\<close>

record cart_fields =
  c_productId :: string
  c_name :: string
  c_email :: string
  c_image :: string
  c_price :: rat
  c_quantity :: number

record cart_doc = cart_fields +
  c_id :: oid

text \<open>Modelled from the spec: the User schema (name, email, photoURL, role). The
  routers show no more of the schema than these names, so a stored user has the
  \<^verbatim>\<open>photoURL\<close> and the \<^verbatim>\<open>role\<close> that it was made with, or none.\<close>

record user_doc =
  u_id :: oid
  u_name :: string
  u_email :: string
  u_photoURL :: "string option"
  u_role :: "string option"

text \<open>The body of a user-create request: \<^verbatim>\<open>photoURL\<close> and \<^verbatim>\<open>role\<close> may be absent
  (the handler tests them).\<close>

record user_body =
  b_name :: string
  b_email :: string
  b_photoURL :: "string option"
  b_role :: "string option"

text \<open>Modelled from the spec: the Product schema (name, price, description, image,
  category).\<close>

record product_doc =
  p_id :: oid
  p_name :: string
  p_price :: rat
  p_description :: string
  p_image :: string
  p_category :: string

section \<open>The response object\<close>

text \<open>
  The exceptions that reach a handler's \<^verbatim>\<open>catch\<close>: reading a property of
  \<^verbatim>\<open>null\<close> (the argument is the property), writing to a response whose headers
  have been sent, and the CastError of a query whose id is not an ObjectId (the
  argument is the message that Mongoose gives it). \<open>message\<close> is \<^verbatim>\<open>error.message\<close>.
\<close>

datatype js_error = TypeError_null string | ERR_HTTP_HEADERS_SENT | CastError string

fun message :: "js_error \<Rightarrow> string" where
  "message (TypeError_null p) = ''Cannot read properties of null (reading '' @ [CHR 0x27] @ p @ [CHR 0x27] @ '')''"
| "message ERR_HTTP_HEADERS_SENT = ''Cannot set headers after they are sent to the client''"
| "message (CastError m) = m"

text \<open>What a handler passes to \<^verbatim>\<open>res.json\<close>.\<close>

datatype body =
  Message string
  | Null
  | CartPayload cart_fields
  | CartDoc cart_doc
  | CartList "cart_doc list"
  | DeleteResult nat
  | UserDoc user_doc
  | IsAdmin bool
  | ProductDoc product_doc

text \<open>
  The Express response: the status code that the next send will use (200 until
  \<^verbatim>\<open>res.status\<close> changes it) and what has been sent to the client, if anything.
  \<^verbatim>\<open>res.json\<close> sends once; on a response that has been sent it throws (it sets the
  Content-Type header, which Node refuses after the headers have gone out).
\<close>

record res =
  statusCode :: nat
  sent :: "(nat \<times> body) option"

definition res_new :: res where
  "res_new = \<lparr>statusCode = 200, sent = None\<rparr>"

text \<open>A piece of handler code acting on the response: it ends normally (\<open>None\<close>) or
  throws, and leaves the response as it is at that moment.\<close>

type_synonym act = "res \<Rightarrow> js_error option \<times> res"

definition status :: "nat \<Rightarrow> act" where
  "status n r = (None, r\<lparr>statusCode := n\<rparr>)"

definition json :: "body \<Rightarrow> act" where
  "json b r =
     (if sent r = None then (None, r\<lparr>sent := Some (statusCode r, b)\<rparr>)
      else (Some ERR_HTTP_HEADERS_SENT, r))"

definition throw :: "js_error \<Rightarrow> act" where
  "throw e r = (Some e, r)"

definition skip :: act where
  "skip r = (None, r)"

definition seq :: "act \<Rightarrow> act \<Rightarrow> act" where
  "seq f g r = (case f r of (None, r') \<Rightarrow> g r' | (Some e, r') \<Rightarrow> (Some e, r'))"

definition try_catch :: "act \<Rightarrow> (js_error \<Rightarrow> act) \<Rightarrow> act" where
  "try_catch f h r = (case f r of (None, r') \<Rightarrow> (None, r') | (Some e, r') \<Rightarrow> h e r')"

text \<open>Every handler has the shape
  \<^verbatim>\<open>try { ... } catch (error) { res.status(500).json({ message: error.message }); }\<close>
  and starts on a fresh response.\<close>

definition handle :: "act \<Rightarrow> js_error option \<times> res" where
  "handle f = try_catch f (\<lambda>error. seq (status 500) (json (Message (message error)))) res_new"

text \<open>
  The outcome of a handler: the collection afterwards, the exception that escaped the
  handler (an unhandled rejection of the async function), and the response. The client
  receives \<open>response\<close>.
\<close>

type_synonym 'd outcome = "'d list \<times> js_error option \<times> res"

definition store_after :: "'d outcome \<Rightarrow> 'd list" where
  "store_after out = fst out"

definition uncaught :: "'d outcome \<Rightarrow> js_error option" where
  "uncaught out = fst (snd out)"

definition response :: "'d outcome \<Rightarrow> (nat \<times> body) option" where
  "response out = sent (snd (snd out))"

section \<open>The collections\<close>

text \<open>
  A collection is the list of its documents in insertion order. The queries the
  handlers use, on a database that answers (a failure of the connection is not part of
  the model, nor is what a schema validator rejects, the schema files being absent):
  \<^verbatim>\<open>find\<close>, \<^verbatim>\<open>findOne\<close>, \<^verbatim>\<open>findById\<close>, \<^verbatim>\<open>findByIdAndDelete\<close>, \<^verbatim>\<open>deleteMany\<close>, and
  \<^verbatim>\<open>save\<close> of a new and of a loaded document.
\<close>

text \<open>
  A query by id gets the id as the string of the request's path and casts it to an
  ObjectId first. Which strings the cast takes is the driver's matter, so the cast is a
  parameter of the handlers that query by id: it answers a string with the ObjectId
  (\<open>Inr\<close>), or with the message of the CastError that the query then throws (\<open>Inl\<close>).
\<close>

type_synonym caster = "string \<Rightarrow> string + oid"

definition find_query :: "('d \<Rightarrow> bool) \<Rightarrow> 'd list \<Rightarrow> 'd list" where
  "find_query q ds = filter q ds"

definition findOne :: "('d \<Rightarrow> bool) \<Rightarrow> 'd list \<Rightarrow> 'd option" where
  "findOne q ds = List.find q ds"

definition findById :: "('d \<Rightarrow> oid) \<Rightarrow> oid \<Rightarrow> 'd list \<Rightarrow> 'd option" where
  "findById ident i ds = findOne (\<lambda>d. ident d = i) ds"

text \<open>\<^verbatim>\<open>updateOne\<close>: the first document that matches is changed.\<close>

fun updateOne :: "('d \<Rightarrow> bool) \<Rightarrow> ('d \<Rightarrow> 'd) \<Rightarrow> 'd list \<Rightarrow> 'd list" where
  "updateOne q f [] = []"
| "updateOne q f (d # ds) = (if q d then f d # ds else d # updateOne q f ds)"

text \<open>\<^verbatim>\<open>deleteOne\<close>: the first document that matches is removed.\<close>

fun deleteOne :: "('d \<Rightarrow> bool) \<Rightarrow> 'd list \<Rightarrow> 'd list" where
  "deleteOne q [] = []"
| "deleteOne q (d # ds) = (if q d then ds else d # deleteOne q ds)"

definition findByIdAndDelete :: "('d \<Rightarrow> oid) \<Rightarrow> oid \<Rightarrow> 'd list \<Rightarrow> 'd option \<times> 'd list" where
  "findByIdAndDelete ident i ds = (findById ident i ds, deleteOne (\<lambda>d. ident d = i) ds)"

text \<open>\<^verbatim>\<open>deleteMany\<close> answers with \<^verbatim>\<open>deletedCount\<close>.\<close>

definition deleteMany :: "('d \<Rightarrow> bool) \<Rightarrow> 'd list \<Rightarrow> nat \<times> 'd list" where
  "deleteMany q ds = (length (filter q ds), filter (\<lambda>d. \<not> q d) ds)"

text \<open>\<^verbatim>\<open>save\<close> of a document made by \<^verbatim>\<open>new Model(...)\<close> inserts it.\<close>

definition save_new :: "'d \<Rightarrow> 'd list \<Rightarrow> 'd list" where
  "save_new d ds = ds @ [d]"

text \<open>\<^verbatim>\<open>save\<close> of a loaded cart document whose \<^verbatim>\<open>quantity\<close> was assigned: Mongoose
  writes the modified path to the document with that \<^verbatim>\<open>_id\<close>.\<close>

definition save_quantity :: "cart_doc \<Rightarrow> cart_doc list \<Rightarrow> cart_doc list" where
  "save_quantity d ds =
     updateOne (\<lambda>x. c_id x = c_id d) (\<lambda>x. x\<lparr>c_quantity := c_quantity d\<rparr>) ds"

text \<open>JavaScript's \<^verbatim>\<open>!v\<close>: an array is an object, and so never falsy, also when empty; a
  lookup result is falsy when it is \<^verbatim>\<open>null\<close>; a string field is falsy when absent or
  empty.\<close>

definition falsy_array :: "'a list \<Rightarrow> bool" where
  "falsy_array xs = False"

definition falsy_doc :: "'d option \<Rightarrow> bool" where
  "falsy_doc d = (d = None)"

definition falsy_string :: "string option \<Rightarrow> bool" where
  "falsy_string s = (s = None \<or> s = Some [])"

section \<open>The cart router\<close>

text \<open>\<^verbatim>\<open>router.get("/:email")\<close>: the 404 branch does not return.\<close>

definition cart_get_by_email :: "string \<Rightarrow> cart_doc list \<Rightarrow> cart_doc outcome" where
  "cart_get_by_email email ds =
     (let carts = find_query (\<lambda>d. c_email d = email) ds
      in (ds, handle (seq (if falsy_array carts
                           then seq (status 404) (json (Message ''Cart item not found''))
                           else skip)
                          (json (CartList carts)))))"

text \<open>\<^verbatim>\<open>new CartModel(cart)\<close>, with the ObjectId that the driver generates for it.\<close>

definition new_CartModel :: "oid \<Rightarrow> cart_fields \<Rightarrow> cart_doc" where
  "new_CartModel new_id cart =
     \<lparr>c_productId = c_productId cart, c_name = c_name cart, c_email = c_email cart,
      c_image = c_image cart, c_price = c_price cart, c_quantity = c_quantity cart,
      c_id = new_id\<rparr>"

text \<open>\<^verbatim>\<open>router.post("/")\<close>: merge into the item of the same product and owner, or insert.\<close>

definition cart_post :: "oid \<Rightarrow> cart_fields \<Rightarrow> cart_doc list \<Rightarrow> cart_doc outcome" where
  "cart_post new_id cart ds =
     (case findOne (\<lambda>d. c_productId d = c_productId cart \<and> c_email d = c_email cart) ds of
        Some existingCart \<Rightarrow>
          (let existingCart' =
                 existingCart\<lparr>c_quantity := js_plus (c_quantity existingCart) (c_quantity cart)\<rparr>
           in (save_quantity existingCart' ds,
               handle (seq (status 200) (json (CartPayload cart)))))
      | None \<Rightarrow>
          (let newCart = new_CartModel new_id cart
           in (save_new newCart ds,
               handle (seq (status 201) (json (CartDoc newCart))))))"

text \<open>\<^verbatim>\<open>router.delete("/clear/:email")\<close>.\<close>

definition cart_delete_clear :: "string \<Rightarrow> cart_doc list \<Rightarrow> cart_doc outcome" where
  "cart_delete_clear email ds =
     (case deleteMany (\<lambda>d. c_email d = email) ds of
        (deletedCount, ds') \<Rightarrow>
          (ds', handle (if deletedCount > 0
                        then seq (status 200) (json (DeleteResult deletedCount))
                        else seq (status 404) (json (Message ''Empty cart'')))))"

text \<open>The invariant of the cart collection: no two cart items have the same
  (productId, email) pair.\<close>

definition cart_unique :: "cart_doc list \<Rightarrow> bool" where
  "cart_unique ds = distinct (map (\<lambda>d. (c_productId d, c_email d)) ds)"

section \<open>The user router\<close>

text \<open>\<^verbatim>\<open>router.get("/:id")\<close>: \<^verbatim>\<open>findById\<close> throws when the id is no ObjectId; the
  404 branch does not return, so \<^verbatim>\<open>res.json(user)\<close> runs after it.\<close>

definition json_user :: "user_doc option \<Rightarrow> body" where
  "json_user u = (case u of None \<Rightarrow> Null | Some d \<Rightarrow> UserDoc d)"

definition user_get_by_id :: "caster \<Rightarrow> string \<Rightarrow> user_doc list \<Rightarrow> user_doc outcome" where
  "user_get_by_id castObjectId i ds =
     (ds, handle (case castObjectId i of
                    Inl m \<Rightarrow> throw (CastError m)
                  | Inr k \<Rightarrow>
                      (let user = findById u_id k ds
                       in seq (if falsy_doc user
                               then seq (status 404) (json (Message ''User is not found''))
                               else skip)
                              (json (json_user user)))))"

text \<open>\<^verbatim>\<open>router.post("/")\<close>: \<^verbatim>\<open>user\<close> and \<^verbatim>\<open>req.body\<close> are one object, so the defaults
  written to \<^verbatim>\<open>req.body\<close> are in the document made from \<^verbatim>\<open>user\<close>.\<close>

definition default_photoURL :: string where
  "default_photoURL = ''https://daisyui.com/images/stock/photo-1534528741775-53994a69daeb.jpg''"

definition new_UserModel :: "oid \<Rightarrow> user_body \<Rightarrow> user_doc" where
  "new_UserModel new_id user =
     \<lparr>u_id = new_id, u_name = b_name user, u_email = b_email user,
      u_photoURL = b_photoURL user, u_role = b_role user\<rparr>"

definition user_post :: "oid \<Rightarrow> user_body \<Rightarrow> user_doc list \<Rightarrow> user_doc outcome" where
  "user_post new_id user ds =
     (case findOne (\<lambda>d. u_email d = b_email user) ds of
        Some existingUser \<Rightarrow>
          (ds, handle (seq (status 302) (json (Message ''User already exists''))))
      | None \<Rightarrow>
          (let body1 = (if falsy_string (b_photoURL user)
                        then user\<lparr>b_photoURL := Some default_photoURL\<rparr> else user);
               body2 = (if falsy_string (b_role body1)
                        then body1\<lparr>b_role := Some ''user''\<rparr> else body1);
               newUser = new_UserModel new_id body2
           in (save_new newUser ds,
               handle (seq (status 201) (json (UserDoc newUser))))))"

text \<open>\<^verbatim>\<open>router.get("/admin/:email")\<close>, after \<^verbatim>\<open>verifyToken\<close> has let the request
  through: \<^verbatim>\<open>user.role\<close> is read with no test of \<^verbatim>\<open>user\<close>.\<close>

definition user_get_admin :: "string \<Rightarrow> user_doc list \<Rightarrow> user_doc outcome" where
  "user_get_admin email ds =
     (ds, handle (case findOne (\<lambda>d. u_email d = email) ds of
                    None \<Rightarrow> throw (TypeError_null ''role'')
                  | Some user \<Rightarrow>
                      (let isAdmin = (if u_role user = Some ''admin'' then True else False)
                       in json (IsAdmin isAdmin))))"

text \<open>What the handler leaves in \<^verbatim>\<open>photoURL\<close> and \<^verbatim>\<open>role\<close> of the body: the given
  string, or the default when the field is absent or the empty string.\<close>

definition or_default :: "string \<Rightarrow> string option \<Rightarrow> string option" where
  "or_default dflt v = (case v of None \<Rightarrow> Some dflt | Some s \<Rightarrow> if s = [] then Some dflt else Some s)"

section \<open>The product router\<close>

text \<open>\<^verbatim>\<open>router.delete("/:id")\<close>: \<^verbatim>\<open>findByIdAndDelete\<close> throws when the id is no
  ObjectId.\<close>

definition product_delete :: "caster \<Rightarrow> string \<Rightarrow> product_doc list \<Rightarrow> product_doc outcome" where
  "product_delete castObjectId i ds =
     (case castObjectId i of
        Inl m \<Rightarrow> (ds, handle (throw (CastError m)))
      | Inr k \<Rightarrow>
          (case findByIdAndDelete p_id k ds of
             (None, ds') \<Rightarrow>
               (ds', handle (seq (status 404) (json (Message ''Product not found''))))
           | (Some product, ds') \<Rightarrow> (ds', handle (json (ProductDoc product)))))"

section \<open>Example collections\<close>

definition ex_cart_ann1 :: cart_doc where
  "ex_cart_ann1 = \<lparr>c_productId = ''p1'', c_name = ''Macbook Pro'', c_email = ''ann@shop.io'',
     c_image = ''macbook.png'', c_price = 2000, c_quantity = Num 5, c_id = ''c1''\<rparr>"

definition ex_cart_bob :: cart_doc where
  "ex_cart_bob = \<lparr>c_productId = ''p1'', c_name = ''Macbook Pro'', c_email = ''bob@shop.io'',
     c_image = ''macbook.png'', c_price = 2000, c_quantity = Num 1, c_id = ''c2''\<rparr>"

definition ex_cart_ann2 :: cart_doc where
  "ex_cart_ann2 = \<lparr>c_productId = ''p2'', c_name = ''Mouse'', c_email = ''ann@shop.io'',
     c_image = ''mouse.png'', c_price = 25, c_quantity = Num 2, c_id = ''c3''\<rparr>"

definition ex_carts :: "cart_doc list" where
  "ex_carts = [ex_cart_ann1, ex_cart_bob, ex_cart_ann2]"

text \<open>A request for three more of product \<open>p1\<close> in Ann's cart, under another name and
  price than the stored item has, and a request for a product that Bob has not.\<close>

definition ex_req_merge :: cart_fields where
  "ex_req_merge = \<lparr>c_productId = ''p1'', c_name = ''Macbook Pro 16'', c_email = ''ann@shop.io'',
     c_image = ''other.png'', c_price = 1900, c_quantity = Num 3\<rparr>"

text \<open>A cart item whose quantity is \<open>2\<^sup>5\<^sup>3\<close>, and a request for one more of it.\<close>

definition ex_cart_big :: cart_doc where
  "ex_cart_big = \<lparr>c_productId = ''p9'', c_name = ''Screw'', c_email = ''ann@shop.io'',
     c_image = ''screw.png'', c_price = 1 / 100, c_quantity = Num 9007199254740992, c_id = ''c9''\<rparr>"

definition ex_req_one :: cart_fields where
  "ex_req_one = \<lparr>c_productId = ''p9'', c_name = ''Screw'', c_email = ''ann@shop.io'',
     c_image = ''screw.png'', c_price = 1 / 100, c_quantity = Num 1\<rparr>"

definition ex_req_new :: cart_fields where
  "ex_req_new = \<lparr>c_productId = ''p2'', c_name = ''Mouse'', c_email = ''bob@shop.io'',
     c_image = ''mouse.png'', c_price = 25, c_quantity = Num 4\<rparr>"

definition ex_user_root :: user_doc where
  "ex_user_root = \<lparr>u_id = ''64b7f0c2a1d3e4f5a6b70001'', u_name = ''Root'', u_email = ''root@shop.io'',
     u_photoURL = Some ''root.png'', u_role = Some ''admin''\<rparr>"

definition ex_user_ann :: user_doc where
  "ex_user_ann = \<lparr>u_id = ''64b7f0c2a1d3e4f5a6b70002'', u_name = ''Ann'', u_email = ''ann@shop.io'',
     u_photoURL = Some ''ann.png'', u_role = Some ''user''\<rparr>"

definition ex_users :: "user_doc list" where
  "ex_users = [ex_user_root, ex_user_ann]"

text \<open>A sign-up of Bob that gives no photo and no role, and a second sign-up under
  Ann's email.\<close>

definition ex_signup_bob :: user_body where
  "ex_signup_bob = \<lparr>b_name = ''Bob'', b_email = ''bob@shop.io'', b_photoURL = None, b_role = None\<rparr>"

definition ex_signup_ann :: user_body where
  "ex_signup_ann = \<lparr>b_name = ''Ann B'', b_email = ''ann@shop.io'',
     b_photoURL = Some ''ann2.png'', b_role = Some ''admin''\<rparr>"

definition ex_product_laptop :: product_doc where
  "ex_product_laptop = \<lparr>p_id = ''64b7f0c2a1d3e4f5a6b7c001'', p_name = ''Macbook Pro'', p_price = 2000,
     p_description = ''A great laptop'', p_image = ''macbook.png'', p_category = ''Electronics''\<rparr>"

definition ex_product_mouse :: product_doc where
  "ex_product_mouse = \<lparr>p_id = ''64b7f0c2a1d3e4f5a6b7c002'', p_name = ''Mouse'', p_price = 25,
     p_description = ''Two buttons'', p_image = ''mouse.png'', p_category = ''Electronics''\<rparr>"

definition ex_products :: "product_doc list" where
  "ex_products = [ex_product_laptop, ex_product_mouse]"

text \<open>
  An example of the driver's cast: it takes exactly the strings of 24 hexadecimal
  digits, in either case, to the ObjectId (written with lower-case digits), and answers
  every other string with the message of the CastError for the model of that name.
\<close>

definition hex_digit :: "char \<Rightarrow> char option" where
  "hex_digit c = map_of (zip ''0123456789abcdefABCDEF'' ''0123456789abcdefabcdef'') c"

definition hex_ObjectId :: "string \<Rightarrow> caster" where
  "hex_ObjectId model s =
     (case (if length s = 24 then those (map hex_digit s) else None) of
        Some k \<Rightarrow> Inr k
      | None \<Rightarrow>
          Inl (''Cast to ObjectId failed for value '' @ [CHR 0x22] @ s @ [CHR 0x22]
               @ '' (type string) at path '' @ [CHR 0x22] @ ''_id'' @ [CHR 0x22]
               @ '' for model '' @ [CHR 0x22] @ model @ [CHR 0x22]))"

section \<open>Running the response code\<close>

lemmas ex_cart_defs =
  ex_carts_def ex_cart_ann1_def ex_cart_bob_def ex_cart_ann2_def ex_req_merge_def ex_req_new_def

lemmas ex_user_defs =
  ex_users_def ex_user_root_def ex_user_ann_def ex_signup_bob_def ex_signup_ann_def

lemmas ex_product_defs = ex_products_def ex_product_laptop_def ex_product_mouse_def

lemma handle_status_json:
  "handle (seq (status n) (json b)) = (None, \<lparr>statusCode = n, sent = Some (n, b)\<rparr>)"
  by (simp add: handle_def try_catch_def seq_def status_def json_def res_new_def)

lemma handle_json:
  "handle (json b) = (None, \<lparr>statusCode = 200, sent = Some (200, b)\<rparr>)"
  by (simp add: handle_def try_catch_def json_def res_new_def)

lemma handle_skip_json:
  "handle (seq skip (json b)) = (None, \<lparr>statusCode = 200, sent = Some (200, b)\<rparr>)"
  by (simp add: handle_def try_catch_def seq_def skip_def json_def res_new_def)

lemma handle_throw:
  "handle (throw e) = (None, \<lparr>statusCode = 500, sent = Some (500, Message (message e))\<rparr>)"
  by (simp add: handle_def try_catch_def seq_def throw_def status_def json_def res_new_def)

lemma handle_json_twice:
  "handle (seq (seq (status n) (json b)) (json b')) =
     (Some ERR_HTTP_HEADERS_SENT, \<lparr>statusCode = 500, sent = Some (n, b)\<rparr>)"
  by (simp add: handle_def try_catch_def seq_def status_def json_def res_new_def)

section \<open>Adding safe integers\<close>

lemma round_half_even_int: "round_half_even (of_int k) = k"
  by (simp add: round_half_even_def)

lemma pow2_nonpos: "k \<le> 0 \<Longrightarrow> pow2 k = 1 / 2 ^ nat (- k)"
  by (auto simp: pow2_def)

lemma exponent_int:
  assumes "0 < n" and "n < 2 ^ 53"
  shows "- 1 \<le> exponent (of_int n) \<and> exponent (of_int n) \<le> 52"
proof -
  from assms(1) have "bitlen n \<noteq> 0" by (simp add: bitlen_eq_zero_iff)
  with bitlen_nonneg [of n] have lo: "1 \<le> bitlen n" by simp
  from assms(2) have hi: "bitlen n \<le> 53" by (simp add: bitlen_le_iff_power)
  have one: "bitlen 1 = 1" by (simp add: bitlen_alt_def)
  from lo hi one show ?thesis
    by (simp add: exponent_def Let_def)
qed

lemma round_double_pos_int:
  assumes "0 < n" and "n < 2 ^ 53"
  shows "rat_of_int (round_half_even (rat_of_int n / pow2 (max (exponent (rat_of_int n)) (- 1022) - 52)))
          * pow2 (max (exponent (rat_of_int n)) (- 1022) - 52) = rat_of_int n"
proof -
  define e where "e = exponent (rat_of_int n)"
  define m where "m = nat (52 - e)"
  from exponent_int [OF assms] have e: "- 1 \<le> e" "e \<le> 52" by (simp_all add: e_def)
  then have "max e (- 1022) - 52 \<le> 0" and "nat (- (max e (- 1022) - 52)) = m"
    by (simp_all add: m_def)
  then have ulp: "pow2 (max e (- 1022) - 52) = 1 / 2 ^ m"
    by (simp add: pow2_nonpos)
  have "rat_of_int n / (1 / 2 ^ m) = rat_of_int (n * 2 ^ m)" by simp
  then have "round_half_even (rat_of_int n / (1 / 2 ^ m)) = n * 2 ^ m"
    by (simp only: round_half_even_int)
  then have "rat_of_int (round_half_even (rat_of_int n / (1 / 2 ^ m))) * (1 / 2 ^ m) = rat_of_int n"
    by simp
  with ulp show ?thesis unfolding e_def by simp
qed

text \<open>An integer below \<open>2\<^sup>5\<^sup>3\<close> in magnitude is a double.\<close>

lemma round_double_int:
  assumes "\<bar>n\<bar> < 2 ^ 53"
  shows "round_double (of_int n) = Num (of_int n)"
proof (cases "n = 0")
  case True
  then show ?thesis by (simp add: round_double_def)
next
  case False
  define k where "k = \<bar>n\<bar>"
  from False assms have k: "0 < k" "k < 2 ^ 53" by (simp_all add: k_def)
  define r where "r = rat_of_int (round_half_even (rat_of_int k / pow2 (max (exponent (rat_of_int k)) (- 1022) - 52)))
          * pow2 (max (exponent (rat_of_int k)) (- 1022) - 52)"
  from round_double_pos_int [OF k] have r: "r = rat_of_int k" by (simp add: r_def)
  have "rat_of_int k < rat_of_int (2 ^ 53)" using k(2) by (simp only: of_int_less_iff)
  also have "\<dots> < pow2 1024" by (simp add: pow2_def)
  finally have small: "\<not> pow2 1024 \<le> r" using r by simp
  have abs: "\<bar>rat_of_int n\<bar> = rat_of_int k" by (simp add: k_def)
  have nz: "rat_of_int n \<noteq> 0" using False by simp
  have "round_double (rat_of_int n) = Num (if 0 < rat_of_int n then r else - r)"
    using nz small unfolding round_double_def Let_def abs r_def by simp
  also have "(if 0 < rat_of_int n then r else - r) = rat_of_int n"
    using r False by (auto simp: k_def)
  finally show ?thesis .
qed

lemma js_plus_safe:
  "\<bar>m + n\<bar> < 2 ^ 53 \<Longrightarrow> js_plus (Num (of_int m)) (Num (of_int n)) = Num (of_int (m + n))"
  using round_double_int [of "m + n"] by simp

lemma round_double_2_53_1: "round_double 9007199254740993 = Num 9007199254740992"
  by code_simp

lemma js_plus_2_53_1: "js_plus (Num 9007199254740992) (Num 1) = Num 9007199254740992"
  by (simp add: round_double_2_53_1)

section \<open>Facts about the queries\<close>

lemma findOne_Some:
  "findOne q ds = Some d \<Longrightarrow> d \<in> set ds \<and> q d"
  by (auto simp: findOne_def find_Some_iff)

lemma findOne_None:
  "findOne q ds = None \<longleftrightarrow> (\<forall>d\<in>set ds. \<not> q d)"
  by (auto simp: findOne_def find_None_iff)

lemma findOne_exists:
  "(\<exists>d\<in>set ds. q d) \<Longrightarrow> \<exists>d. findOne q ds = Some d"
  by (cases "findOne q ds") (auto simp: findOne_None)

lemma updateOne_by_id:
  "distinct (map ident ds) \<Longrightarrow>
   updateOne (\<lambda>x. ident x = i) f ds = map (\<lambda>x. if ident x = i then f x else x) ds"
proof (induction ds)
  case Nil
  show ?case by simp
next
  case (Cons d ds)
  show ?case
  proof (cases "ident d = i")
    case True
    from Cons.prems have "ident d \<notin> ident ` set ds" by simp
    with True have "\<forall>x\<in>set ds. ident x \<noteq> i" by (metis image_eqI)
    then have "map (\<lambda>x. if ident x = i then f x else x) ds = ds"
      by (simp add: map_idI)
    with True show ?thesis by simp
  next
    case False
    with Cons show ?thesis by simp
  qed
qed

lemma deleteOne_by_id:
  "distinct (map ident ds) \<Longrightarrow>
   deleteOne (\<lambda>x. ident x = i) ds = filter (\<lambda>x. ident x \<noteq> i) ds"
proof (induction ds)
  case Nil
  show ?case by simp
next
  case (Cons d ds)
  show ?case
  proof (cases "ident d = i")
    case True
    from Cons.prems have "ident d \<notin> ident ` set ds" by simp
    with True have "\<forall>x\<in>set ds. ident x \<noteq> i" by (metis image_eqI)
    then have "filter (\<lambda>x. ident x \<noteq> i) ds = ds" by simp
    with True show ?thesis by simp
  next
    case False
    with Cons show ?thesis by simp
  qed
qed

lemma deleteOne_no_match:
  "\<forall>d\<in>set ds. \<not> q d \<Longrightarrow> deleteOne q ds = ds"
  by (induction ds) auto

lemma same_id_same_doc:
  "distinct (map ident ds) \<Longrightarrow> x \<in> set ds \<Longrightarrow> y \<in> set ds \<Longrightarrow> ident x = ident y \<Longrightarrow> x = y"
  by (meson distinct_map inj_onD)

section \<open>Listing a cart by owner\<close>

text \<open>
  Claim C10. For every email and every cart collection, \<^verbatim>\<open>GET /carts/:email\<close> responds
  200 with the array of the cart items whose email is that email, which may be empty;
  the collection is as before and nothing is thrown. The test \<^verbatim>\<open>!carts\<close> that guards
  the 404 "Cart item not found" branch is false for every result of the query, so that
  branch is never taken.
\<close>

theorem cart_get_by_email_200:
  "response (cart_get_by_email email ds) = Some (200, CartList (filter (\<lambda>d. c_email d = email) ds))
   \<and> \<not> falsy_array (find_query (\<lambda>d. c_email d = email) ds)
   \<and> response (cart_get_by_email email ds) \<noteq> Some (404, Message ''Cart item not found'')
   \<and> store_after (cart_get_by_email email ds) = ds
   \<and> uncaught (cart_get_by_email email ds) = None"
  by (simp add: cart_get_by_email_def falsy_array_def find_query_def handle_skip_json
      response_def store_after_def uncaught_def)

section \<open>Clearing a cart\<close>

text \<open>
  Claim C5. For every email, \<^verbatim>\<open>DELETE /carts/clear/:email\<close> leaves exactly the cart
  items whose email differs from it (all and only the items of that email are removed).
  When at least one item had that email, the response is 200 with the deletion result,
  whose count is the number of removed items; when none had, the response is 404 with
  the message "Empty cart" and the collection is unchanged.
\<close>

theorem cart_delete_clear_correct:
  "store_after (cart_delete_clear email ds) = filter (\<lambda>d. c_email d \<noteq> email) ds
   \<and> ((\<exists>d\<in>set ds. c_email d = email) \<longrightarrow>
        response (cart_delete_clear email ds) =
          Some (200, DeleteResult (length (filter (\<lambda>d. c_email d = email) ds))))
   \<and> ((\<forall>d\<in>set ds. c_email d \<noteq> email) \<longrightarrow>
        response (cart_delete_clear email ds) = Some (404, Message ''Empty cart'')
        \<and> store_after (cart_delete_clear email ds) = ds)"
proof -
  have store: "store_after (cart_delete_clear email ds) = filter (\<lambda>d. c_email d \<noteq> email) ds"
    by (simp add: cart_delete_clear_def deleteMany_def store_after_def)
  have some: "response (cart_delete_clear email ds) =
      Some (200, DeleteResult (length (filter (\<lambda>d. c_email d = email) ds)))"
    if "\<exists>d\<in>set ds. c_email d = email"
  proof -
    from that have "filter (\<lambda>d. c_email d = email) ds \<noteq> []"
      by (simp add: filter_empty_conv)
    then show ?thesis
      by (simp add: cart_delete_clear_def deleteMany_def response_def handle_status_json)
  qed
  have none: "response (cart_delete_clear email ds) = Some (404, Message ''Empty cart'')
      \<and> store_after (cart_delete_clear email ds) = ds"
    if "\<forall>d\<in>set ds. c_email d \<noteq> email"
  proof -
    from that have "filter (\<lambda>d. c_email d = email) ds = []"
      by (simp add: filter_empty_conv)
    moreover from that have "filter (\<lambda>d. c_email d \<noteq> email) ds = ds"
      by simp
    ultimately show ?thesis
      by (simp add: cart_delete_clear_def deleteMany_def response_def store_after_def
          handle_status_json)
  qed
  from store some none show ?thesis by blast
qed

theorem cart_delete_clear_witness:
  "(\<exists>d\<in>set ex_carts. c_email d = ''ann@shop.io'')
   \<and> store_after (cart_delete_clear ''ann@shop.io'' ex_carts) = [ex_cart_bob]
   \<and> response (cart_delete_clear ''ann@shop.io'' ex_carts) = Some (200, DeleteResult 2)
   \<and> \<not> (\<exists>d\<in>set ex_carts. c_email d = ''eve@shop.io'')
   \<and> response (cart_delete_clear ''eve@shop.io'' ex_carts) = Some (404, Message ''Empty cart'')
   \<and> store_after (cart_delete_clear ''eve@shop.io'' ex_carts) = ex_carts"
proof -
  have ann: "\<exists>d\<in>set ex_carts. c_email d = ''ann@shop.io''"
    by (simp add: ex_cart_defs)
  have eve: "\<forall>d\<in>set ex_carts. c_email d \<noteq> ''eve@shop.io''"
    by (simp add: ex_cart_defs)
  from ann cart_delete_clear_correct [of "''ann@shop.io''" ex_carts]
  have "store_after (cart_delete_clear ''ann@shop.io'' ex_carts) =
          filter (\<lambda>d. c_email d \<noteq> ''ann@shop.io'') ex_carts
        \<and> response (cart_delete_clear ''ann@shop.io'' ex_carts) =
          Some (200, DeleteResult (length (filter (\<lambda>d. c_email d = ''ann@shop.io'') ex_carts)))"
    by blast
  then have 1: "store_after (cart_delete_clear ''ann@shop.io'' ex_carts) = [ex_cart_bob]
        \<and> response (cart_delete_clear ''ann@shop.io'' ex_carts) = Some (200, DeleteResult 2)"
    by (simp add: ex_cart_defs)
  from eve cart_delete_clear_correct [of "''eve@shop.io''" ex_carts]
  have 2: "response (cart_delete_clear ''eve@shop.io'' ex_carts) = Some (404, Message ''Empty cart'')
        \<and> store_after (cart_delete_clear ''eve@shop.io'' ex_carts) = ex_carts"
    by blast
  from ann eve 1 2 show ?thesis by blast
qed

section \<open>Creating a cart item\<close>

lemma findById_after_update:
  "distinct (map ident ds) \<Longrightarrow> d \<in> set ds \<Longrightarrow> ident (f d) = ident d \<Longrightarrow>
   findById ident (ident d) (map (\<lambda>x. if ident x = ident d then f x else x) ds) = Some (f d)"
proof (induction ds)
  case Nil
  then show ?case by simp
next
  case (Cons x xs)
  show ?case
  proof (cases "x = d")
    case True
    with Cons.prems show ?thesis by (simp add: findById_def findOne_def)
  next
    case False
    with Cons.prems have d: "d \<in> set xs" by simp
    from Cons.prems have "ident x \<notin> ident ` set xs" by simp
    with d have "ident x \<noteq> ident d" by (metis image_eqI)
    moreover from Cons.IH Cons.prems d
    have "findById ident (ident d) (map (\<lambda>x. if ident x = ident d then f x else x) xs) = Some (f d)"
      by simp
    ultimately show ?thesis by (simp add: findById_def findOne_def)
  qed
qed

lemma save_quantity_map:
  "distinct (map c_id ds) \<Longrightarrow>
   save_quantity e ds = map (\<lambda>x. if c_id x = c_id e then x\<lparr>c_quantity := c_quantity e\<rparr> else x) ds"
  by (simp add: save_quantity_def updateOne_by_id)

lemma cart_post_found:
  "findOne (\<lambda>d. c_productId d = c_productId cart \<and> c_email d = c_email cart) ds = Some d \<Longrightarrow>
   cart_post new_id cart ds =
     (save_quantity (d\<lparr>c_quantity := js_plus (c_quantity d) (c_quantity cart)\<rparr>) ds,
      None, \<lparr>statusCode = 200, sent = Some (200, CartPayload cart)\<rparr>)"
  by (simp add: cart_post_def handle_status_json Let_def)

lemma cart_post_not_found:
  "findOne (\<lambda>d. c_productId d = c_productId cart \<and> c_email d = c_email cart) ds = None \<Longrightarrow>
   cart_post new_id cart ds =
     (ds @ [new_CartModel new_id cart],
      None, \<lparr>statusCode = 201, sent = Some (201, CartDoc (new_CartModel new_id cart))\<rparr>)"
  by (simp add: cart_post_def handle_status_json save_new_def Let_def)

text \<open>
  Claim C1, as the specification states it: a cart-create request whose (productId,
  email) pair matches a stored item increments the quantity of that item by the
  incoming quantity. It fails where the sum is not a double: the stored item has the
  quantity \<open>2\<^sup>5\<^sup>3\<close>, the request asks for one more of the same product for the
  same owner, and afterwards the stored item is as it was, its quantity \<open>2\<^sup>5\<^sup>3\<close>
  and not \<open>2\<^sup>5\<^sup>3 + 1\<close>.
\<close>

theorem cart_post_merge_not_incremented:
  "c_productId ex_cart_big = c_productId ex_req_one
   \<and> c_email ex_cart_big = c_email ex_req_one
   \<and> c_quantity ex_cart_big = Num 9007199254740992
   \<and> c_quantity ex_req_one = Num 1
   \<and> store_after (cart_post ''c0'' ex_req_one [ex_cart_big]) = [ex_cart_big]
   \<and> map c_quantity (store_after (cart_post ''c0'' ex_req_one [ex_cart_big])) \<noteq> [Num 9007199254740993]"
proof -
  have "findOne (\<lambda>d. c_productId d = c_productId ex_req_one \<and> c_email d = c_email ex_req_one)
      [ex_cart_big] = Some ex_cart_big"
    by (simp add: findOne_def ex_cart_big_def ex_req_one_def)
  then have "store_after (cart_post ''c0'' ex_req_one [ex_cart_big]) =
      [ex_cart_big\<lparr>c_quantity := js_plus (Num 9007199254740992) (Num 1)\<rparr>]"
    by (simp add: cart_post_found store_after_def save_quantity_def ex_cart_big_def ex_req_one_def)
  then have "store_after (cart_post ''c0'' ex_req_one [ex_cart_big]) = [ex_cart_big]"
    by (simp add: round_double_2_53_1 ex_cart_big_def)
  then show ?thesis
    by (simp add: ex_cart_big_def ex_req_one_def)
qed

text \<open>
  Claim C1, amended. In a collection whose documents have distinct ids, for every
  cart-create request whose (productId, email) pair matches a stored item (\<open>d\<close> is the
  item that the lookup finds), the stored and the incoming quantity being finite
  numbers: the item stored under the id of \<open>d\<close> afterwards is \<open>d\<close> with the JavaScript
  sum of the two quantities as its quantity, which is their exact sum whenever both are
  integers and the sum is below \<open>2\<^sup>5\<^sup>3\<close> in magnitude; the response is 200 with the
  request's payload as its body, and nothing is thrown.
\<close>

theorem cart_post_merge:
  assumes "distinct (map c_id ds)"
    and "findOne (\<lambda>d. c_productId d = c_productId cart \<and> c_email d = c_email cart) ds = Some d"
    and "c_quantity d = Num a" and "c_quantity cart = Num b"
  shows "response (cart_post new_id cart ds) = Some (200, CartPayload cart)
    \<and> findById c_id (c_id d) (store_after (cart_post new_id cart ds)) =
        Some (d\<lparr>c_quantity := js_plus (Num a) (Num b)\<rparr>)
    \<and> (\<forall>m n. a = of_int m \<and> b = of_int n \<and> \<bar>m + n\<bar> < 2 ^ 53 \<longrightarrow>
          js_plus (Num a) (Num b) = Num (of_int (m + n)))
    \<and> uncaught (cart_post new_id cart ds) = None"
proof -
  let ?e = "d\<lparr>c_quantity := js_plus (c_quantity d) (c_quantity cart)\<rparr>"
  from assms(2) have d: "d \<in> set ds" by (simp add: findOne_Some)
  have "store_after (cart_post new_id cart ds) =
      map (\<lambda>x. if c_id x = c_id d then x\<lparr>c_quantity := c_quantity ?e\<rparr> else x) ds"
    using assms(1,2) by (simp add: cart_post_found store_after_def save_quantity_map)
  moreover have "findById c_id (c_id d)
      (map (\<lambda>x. if c_id x = c_id d then x\<lparr>c_quantity := c_quantity ?e\<rparr> else x) ds)
      = Some (d\<lparr>c_quantity := c_quantity ?e\<rparr>)"
    using assms(1) d by (rule findById_after_update) simp
  ultimately have "findById c_id (c_id d) (store_after (cart_post new_id cart ds)) = Some ?e"
    by simp
  with assms(3,4) have stored: "findById c_id (c_id d) (store_after (cart_post new_id cart ds)) =
        Some (d\<lparr>c_quantity := js_plus (Num a) (Num b)\<rparr>)"
    by simp
  have exact: "\<forall>m n. a = of_int m \<and> b = of_int n \<and> \<bar>m + n\<bar> < 2 ^ 53 \<longrightarrow>
          js_plus (Num a) (Num b) = Num (of_int (m + n))"
    using js_plus_safe by blast
  from assms(2) have "response (cart_post new_id cart ds) = Some (200, CartPayload cart)
      \<and> uncaught (cart_post new_id cart ds) = None"
    by (simp add: cart_post_found response_def uncaught_def)
  with stored exact show ?thesis by blast
qed

theorem cart_post_merge_witness:
  "distinct (map c_id ex_carts)
   \<and> findOne (\<lambda>d. c_productId d = c_productId ex_req_merge \<and> c_email d = c_email ex_req_merge)
        ex_carts = Some ex_cart_ann1
   \<and> c_quantity ex_cart_ann1 = Num 5
   \<and> c_quantity ex_req_merge = Num 3
   \<and> response (cart_post ''c4'' ex_req_merge ex_carts) = Some (200, CartPayload ex_req_merge)
   \<and> findById c_id ''c1'' (store_after (cart_post ''c4'' ex_req_merge ex_carts)) =
        Some (ex_cart_ann1\<lparr>c_quantity := Num 8\<rparr>)"
proof -
  have ids: "distinct (map c_id ex_carts)"
    by (simp add: ex_cart_defs)
  have found: "findOne (\<lambda>d. c_productId d = c_productId ex_req_merge \<and> c_email d = c_email ex_req_merge)
        ex_carts = Some ex_cart_ann1"
    by (simp add: ex_cart_defs findOne_def)
  have q: "c_quantity ex_cart_ann1 = Num 5" "c_quantity ex_req_merge = Num 3"
    by (simp_all add: ex_cart_ann1_def ex_req_merge_def)
  note merge = cart_post_merge [OF ids found q, of "''c4''"]
  from merge have "(5::rat) = of_int 5 \<and> (3::rat) = of_int 3 \<and> \<bar>5 + 3\<bar> < (2::int) ^ 53 \<longrightarrow>
      js_plus (Num 5) (Num 3) = Num (of_int (5 + 3))"
    by blast
  then have sum: "js_plus (Num 5) (Num 3) = Num 8"
    by simp
  from merge have "response (cart_post ''c4'' ex_req_merge ex_carts) = Some (200, CartPayload ex_req_merge)
      \<and> findById c_id (c_id ex_cart_ann1) (store_after (cart_post ''c4'' ex_req_merge ex_carts)) =
        Some (ex_cart_ann1\<lparr>c_quantity := js_plus (Num 5) (Num 3)\<rparr>)"
    by blast
  with sum have "response (cart_post ''c4'' ex_req_merge ex_carts) = Some (200, CartPayload ex_req_merge)
      \<and> findById c_id ''c1'' (store_after (cart_post ''c4'' ex_req_merge ex_carts)) =
        Some (ex_cart_ann1\<lparr>c_quantity := Num 8\<rparr>)"
    by (simp add: ex_cart_ann1_def)
  with ids found q show ?thesis by blast
qed

text \<open>
  Claim C2. In a collection whose documents have distinct ids, for every cart-create
  request that merges into the stored item \<open>d\<close>: the collection keeps its length and
  order, every document in it keeps its id, productId, name, email, image and price, and
  every document other than \<open>d\<close> is unchanged altogether.
\<close>

theorem cart_post_merge_frame:
  assumes "distinct (map c_id ds)"
    and "findOne (\<lambda>d. c_productId d = c_productId cart \<and> c_email d = c_email cart) ds = Some d"
  shows "length (store_after (cart_post new_id cart ds)) = length ds
    \<and> (\<forall>j<length ds.
          c_id (store_after (cart_post new_id cart ds) ! j) = c_id (ds ! j)
        \<and> c_productId (store_after (cart_post new_id cart ds) ! j) = c_productId (ds ! j)
        \<and> c_name (store_after (cart_post new_id cart ds) ! j) = c_name (ds ! j)
        \<and> c_email (store_after (cart_post new_id cart ds) ! j) = c_email (ds ! j)
        \<and> c_image (store_after (cart_post new_id cart ds) ! j) = c_image (ds ! j)
        \<and> c_price (store_after (cart_post new_id cart ds) ! j) = c_price (ds ! j)
        \<and> (ds ! j \<noteq> d \<longrightarrow> store_after (cart_post new_id cart ds) ! j = ds ! j))"
proof -
  let ?g = "\<lambda>x. if c_id x = c_id d
                 then x\<lparr>c_quantity := js_plus (c_quantity d) (c_quantity cart)\<rparr> else x"
  from assms(2) have d: "d \<in> set ds" by (simp add: findOne_Some)
  have store: "store_after (cart_post new_id cart ds) = map ?g ds"
    using assms by (simp add: cart_post_found store_after_def save_quantity_map)
  have other: "?g (ds ! j) = ds ! j" if "j < length ds" and "ds ! j \<noteq> d" for j
  proof -
    from that(1) have "ds ! j \<in> set ds" by simp
    with assms(1) d that(2) have "c_id (ds ! j) \<noteq> c_id d"
      using same_id_same_doc [of c_id ds "ds ! j" d] by blast
    then show ?thesis by simp
  qed
  from store other show ?thesis by simp
qed

theorem cart_post_merge_frame_witness:
  "distinct (map c_id ex_carts)
   \<and> findOne (\<lambda>d. c_productId d = c_productId ex_req_merge \<and> c_email d = c_email ex_req_merge)
        ex_carts = Some ex_cart_ann1
   \<and> length (store_after (cart_post ''c4'' ex_req_merge ex_carts)) = 3
   \<and> c_name (store_after (cart_post ''c4'' ex_req_merge ex_carts) ! 0) = ''Macbook Pro''
   \<and> c_price (store_after (cart_post ''c4'' ex_req_merge ex_carts) ! 0) = 2000
   \<and> store_after (cart_post ''c4'' ex_req_merge ex_carts) ! 1 = ex_cart_bob
   \<and> store_after (cart_post ''c4'' ex_req_merge ex_carts) ! 2 = ex_cart_ann2"
proof -
  have ids: "distinct (map c_id ex_carts)"
    by (simp add: ex_cart_defs)
  have found: "findOne (\<lambda>d. c_productId d = c_productId ex_req_merge \<and> c_email d = c_email ex_req_merge)
        ex_carts = Some ex_cart_ann1"
    by (simp add: ex_cart_defs findOne_def)
  have len: "length ex_carts = 3"
    by (simp add: ex_carts_def)
  have nth: "ex_carts ! 0 = ex_cart_ann1" "ex_carts ! 1 = ex_cart_bob" "ex_carts ! 2 = ex_cart_ann2"
    by (simp_all add: ex_carts_def)
  have ne: "ex_cart_bob \<noteq> ex_cart_ann1" "ex_cart_ann2 \<noteq> ex_cart_ann1"
    by (simp_all add: ex_cart_ann1_def ex_cart_bob_def ex_cart_ann2_def)
  note frame = cart_post_merge_frame [OF ids found, of "''c4''"]
  from frame len have l: "length (store_after (cart_post ''c4'' ex_req_merge ex_carts)) = 3"
    by simp
  from frame len have all: "\<forall>j<3.
        c_name (store_after (cart_post ''c4'' ex_req_merge ex_carts) ! j) = c_name (ex_carts ! j)
      \<and> c_price (store_after (cart_post ''c4'' ex_req_merge ex_carts) ! j) = c_price (ex_carts ! j)
      \<and> (ex_carts ! j \<noteq> ex_cart_ann1 \<longrightarrow>
           store_after (cart_post ''c4'' ex_req_merge ex_carts) ! j = ex_carts ! j)"
    by simp
  from all have "c_name (store_after (cart_post ''c4'' ex_req_merge ex_carts) ! 0) = c_name (ex_carts ! 0)
      \<and> c_price (store_after (cart_post ''c4'' ex_req_merge ex_carts) ! 0) = c_price (ex_carts ! 0)"
    by simp
  with nth have a0: "c_name (store_after (cart_post ''c4'' ex_req_merge ex_carts) ! 0) = ''Macbook Pro''
      \<and> c_price (store_after (cart_post ''c4'' ex_req_merge ex_carts) ! 0) = 2000"
    by (simp add: ex_cart_ann1_def)
  from all have "ex_carts ! 1 \<noteq> ex_cart_ann1 \<longrightarrow>
      store_after (cart_post ''c4'' ex_req_merge ex_carts) ! 1 = ex_carts ! 1"
    by simp
  with nth ne have a1: "store_after (cart_post ''c4'' ex_req_merge ex_carts) ! 1 = ex_cart_bob"
    by simp
  from all have "ex_carts ! 2 \<noteq> ex_cart_ann1 \<longrightarrow>
      store_after (cart_post ''c4'' ex_req_merge ex_carts) ! 2 = ex_carts ! 2"
    by simp
  with nth ne have a2: "store_after (cart_post ''c4'' ex_req_merge ex_carts) ! 2 = ex_cart_ann2"
    by simp
  from ids found l a0 a1 a2 show ?thesis by blast
qed

text \<open>
  Claim C3. For every cart-create request whose (productId, email) pair matches no
  stored item, the collection afterwards is the collection before with one document
  appended; that document has the fields of the request and the generated id, and the
  response is 201 with that document as its body; nothing is thrown.
\<close>

theorem cart_post_insert:
  assumes "findOne (\<lambda>d. c_productId d = c_productId cart \<and> c_email d = c_email cart) ds = None"
  shows "store_after (cart_post new_id cart ds) = ds @ [new_CartModel new_id cart]
    \<and> response (cart_post new_id cart ds) = Some (201, CartDoc (new_CartModel new_id cart))
    \<and> c_id (new_CartModel new_id cart) = new_id
    \<and> cart_fields.truncate (new_CartModel new_id cart) = cart
    \<and> uncaught (cart_post new_id cart ds) = None"
  using assms
  by (simp add: cart_post_not_found store_after_def response_def uncaught_def
      new_CartModel_def cart_fields.truncate_def)

theorem cart_post_insert_witness:
  "findOne (\<lambda>d. c_productId d = c_productId ex_req_new \<and> c_email d = c_email ex_req_new)
        ex_carts = None
   \<and> store_after (cart_post ''c4'' ex_req_new ex_carts) =
        ex_carts @ [\<lparr>c_productId = ''p2'', c_name = ''Mouse'', c_email = ''bob@shop.io'',
          c_image = ''mouse.png'', c_price = 25, c_quantity = Num 4, c_id = ''c4''\<rparr>]
   \<and> response (cart_post ''c4'' ex_req_new ex_carts) =
        Some (201, CartDoc \<lparr>c_productId = ''p2'', c_name = ''Mouse'', c_email = ''bob@shop.io'',
          c_image = ''mouse.png'', c_price = 25, c_quantity = Num 4, c_id = ''c4''\<rparr>)"
proof -
  have nf: "findOne (\<lambda>d. c_productId d = c_productId ex_req_new \<and> c_email d = c_email ex_req_new)
        ex_carts = None"
    by (simp add: ex_cart_defs findOne_def)
  from cart_post_insert [OF nf, of "''c4''"] nf show ?thesis
    by (simp add: new_CartModel_def ex_req_new_def)
qed

section \<open>One cart item per product and owner\<close>

lemma updateOne_keeps_key:
  "(\<And>x. key (f x) = key x) \<Longrightarrow> map key (updateOne q f ds) = map key ds"
  by (induction ds) simp_all

lemma cart_post_keeps_ids:
  assumes "distinct (map c_id ds)" and "new_id \<notin> c_id ` set ds"
  shows "distinct (map c_id (store_after (cart_post new_id cart ds)))"
proof (cases "findOne (\<lambda>d. c_productId d = c_productId cart \<and> c_email d = c_email cart) ds")
  case None
  with assms show ?thesis
    by (simp add: cart_post_not_found store_after_def new_CartModel_def)
next
  case (Some d)
  have "map c_id (save_quantity (d\<lparr>c_quantity := js_plus (c_quantity d) (c_quantity cart)\<rparr>) ds) = map c_id ds"
    unfolding save_quantity_def by (rule updateOne_keeps_key) simp
  with assms Some show ?thesis
    by (simp add: cart_post_found store_after_def)
qed

text \<open>
  Claim C4. If no two cart items of a collection have the same (productId, email) pair,
  then after a cart-create request, whatever its payload and the generated id, no two
  cart items of the resulting collection have the same pair: a request for a pair that
  is stored is merged into the stored item, not inserted.
\<close>

theorem cart_post_keeps_unique:
  assumes "cart_unique ds"
  shows "cart_unique (store_after (cart_post new_id cart ds))"
proof (cases "findOne (\<lambda>d. c_productId d = c_productId cart \<and> c_email d = c_email cart) ds")
  case None
  then have "\<forall>d\<in>set ds. (c_productId d, c_email d) \<noteq> (c_productId cart, c_email cart)"
    by (auto simp: findOne_None)
  then have "(c_productId cart, c_email cart) \<notin> set (map (\<lambda>d. (c_productId d, c_email d)) ds)"
    by auto
  with assms None show ?thesis
    by (simp add: cart_post_not_found store_after_def cart_unique_def new_CartModel_def)
next
  case (Some d)
  have "map (\<lambda>d. (c_productId d, c_email d))
          (save_quantity (d\<lparr>c_quantity := js_plus (c_quantity d) (c_quantity cart)\<rparr>) ds)
        = map (\<lambda>d. (c_productId d, c_email d)) ds"
    unfolding save_quantity_def by (rule updateOne_keeps_key) simp
  with assms Some show ?thesis
    by (simp add: cart_post_found store_after_def cart_unique_def)
qed

theorem cart_post_keeps_unique_witness:
  "cart_unique ex_carts
   \<and> cart_unique (store_after (cart_post ''c4'' ex_req_merge ex_carts))
   \<and> length (store_after (cart_post ''c4'' ex_req_merge ex_carts)) = 3
   \<and> cart_unique (store_after (cart_post ''c4'' ex_req_new ex_carts))
   \<and> length (store_after (cart_post ''c4'' ex_req_new ex_carts)) = 4"
proof -
  have u: "cart_unique ex_carts"
    by (simp add: cart_unique_def ex_cart_defs)
  have found: "findOne (\<lambda>d. c_productId d = c_productId ex_req_merge \<and> c_email d = c_email ex_req_merge)
        ex_carts = Some ex_cart_ann1"
    by (simp add: ex_cart_defs findOne_def)
  have nf: "findOne (\<lambda>d. c_productId d = c_productId ex_req_new \<and> c_email d = c_email ex_req_new)
        ex_carts = None"
    by (simp add: ex_cart_defs findOne_def)
  have l3: "length (store_after (cart_post ''c4'' ex_req_merge ex_carts)) = 3"
    using found
    by (simp add: cart_post_found store_after_def save_quantity_def ex_carts_def ex_cart_ann1_def)
  have l4: "length (store_after (cart_post ''c4'' ex_req_new ex_carts)) = 4"
    using nf by (simp add: cart_post_not_found store_after_def ex_carts_def)
  from u cart_post_keeps_unique [OF u, of "''c4''" ex_req_merge]
    cart_post_keeps_unique [OF u, of "''c4''" ex_req_new] l3 l4
  show ?thesis by blast
qed

section \<open>Creating a user\<close>

text \<open>
  Claim C6. For every user-create request: if a stored user has the email of the
  request, the response is 302 with the message "User already exists" and the
  collection is unchanged; otherwise the collection gets one new document, with the
  generated id, the name and email of the request, the photoURL of the request or the
  placeholder URL when it is absent (or empty), and the role of the request or "user"
  when it is absent (or empty), and the response is 201 with that document.
\<close>

theorem user_post_correct:
  "((\<exists>d\<in>set ds. u_email d = b_email user) \<longrightarrow>
       response (user_post new_id user ds) = Some (302, Message ''User already exists'')
     \<and> store_after (user_post new_id user ds) = ds)
   \<and> ((\<forall>d\<in>set ds. u_email d \<noteq> b_email user) \<longrightarrow>
       store_after (user_post new_id user ds) =
         ds @ [\<lparr>u_id = new_id, u_name = b_name user, u_email = b_email user,
                u_photoURL = or_default default_photoURL (b_photoURL user),
                u_role = or_default ''user'' (b_role user)\<rparr>]
     \<and> response (user_post new_id user ds) =
         Some (201, UserDoc \<lparr>u_id = new_id, u_name = b_name user, u_email = b_email user,
                u_photoURL = or_default default_photoURL (b_photoURL user),
                u_role = or_default ''user'' (b_role user)\<rparr>))
   \<and> or_default default_photoURL None = Some default_photoURL
   \<and> or_default ''user'' None = Some ''user''"
proof -
  have exists: "response (user_post new_id user ds) = Some (302, Message ''User already exists'')
      \<and> store_after (user_post new_id user ds) = ds"
    if "\<exists>d\<in>set ds. u_email d = b_email user"
  proof -
    from that obtain e where "findOne (\<lambda>d. u_email d = b_email user) ds = Some e"
      using findOne_exists [of ds "\<lambda>d. u_email d = b_email user"] by blast
    then show ?thesis
      by (simp add: user_post_def handle_status_json response_def store_after_def)
  qed
  have fresh: "store_after (user_post new_id user ds) =
         ds @ [\<lparr>u_id = new_id, u_name = b_name user, u_email = b_email user,
                u_photoURL = or_default default_photoURL (b_photoURL user),
                u_role = or_default ''user'' (b_role user)\<rparr>]
     \<and> response (user_post new_id user ds) =
         Some (201, UserDoc \<lparr>u_id = new_id, u_name = b_name user, u_email = b_email user,
                u_photoURL = or_default default_photoURL (b_photoURL user),
                u_role = or_default ''user'' (b_role user)\<rparr>)"
    if "\<forall>d\<in>set ds. u_email d \<noteq> b_email user"
  proof -
    from that have "findOne (\<lambda>d. u_email d = b_email user) ds = None"
      by (simp add: findOne_None)
    then show ?thesis
      by (simp add: user_post_def handle_status_json response_def store_after_def Let_def
          save_new_def new_UserModel_def falsy_string_def or_default_def split: option.split)
  qed
  have "or_default default_photoURL None = Some default_photoURL"
    and "or_default ''user'' None = Some ''user''"
    by (simp_all add: or_default_def)
  with exists fresh show ?thesis by blast
qed

theorem user_post_witness:
  "(\<exists>d\<in>set ex_users. u_email d = b_email ex_signup_ann)
   \<and> response (user_post ''64b7f0c2a1d3e4f5a6b70003'' ex_signup_ann ex_users) = Some (302, Message ''User already exists'')
   \<and> store_after (user_post ''64b7f0c2a1d3e4f5a6b70003'' ex_signup_ann ex_users) = ex_users
   \<and> \<not> (\<exists>d\<in>set ex_users. u_email d = b_email ex_signup_bob)
   \<and> store_after (user_post ''64b7f0c2a1d3e4f5a6b70003'' ex_signup_bob ex_users) =
        ex_users @ [\<lparr>u_id = ''64b7f0c2a1d3e4f5a6b70003'', u_name = ''Bob'', u_email = ''bob@shop.io'',
          u_photoURL = Some ''https://daisyui.com/images/stock/photo-1534528741775-53994a69daeb.jpg'',
          u_role = Some ''user''\<rparr>]
   \<and> response (user_post ''64b7f0c2a1d3e4f5a6b70003'' ex_signup_bob ex_users) =
        Some (201, UserDoc \<lparr>u_id = ''64b7f0c2a1d3e4f5a6b70003'', u_name = ''Bob'', u_email = ''bob@shop.io'',
          u_photoURL = Some ''https://daisyui.com/images/stock/photo-1534528741775-53994a69daeb.jpg'',
          u_role = Some ''user''\<rparr>)"
proof -
  have ann: "\<exists>d\<in>set ex_users. u_email d = b_email ex_signup_ann"
    by (simp add: ex_user_defs)
  have bob: "\<forall>d\<in>set ex_users. u_email d \<noteq> b_email ex_signup_bob"
    by (simp add: ex_user_defs)
  from ann user_post_correct [of ex_users ex_signup_ann "''64b7f0c2a1d3e4f5a6b70003''"]
  have 1: "response (user_post ''64b7f0c2a1d3e4f5a6b70003'' ex_signup_ann ex_users) = Some (302, Message ''User already exists'')
      \<and> store_after (user_post ''64b7f0c2a1d3e4f5a6b70003'' ex_signup_ann ex_users) = ex_users"
    by blast
  from bob user_post_correct [of ex_users ex_signup_bob "''64b7f0c2a1d3e4f5a6b70003''"]
  have "store_after (user_post ''64b7f0c2a1d3e4f5a6b70003'' ex_signup_bob ex_users) =
         ex_users @ [\<lparr>u_id = ''64b7f0c2a1d3e4f5a6b70003'', u_name = b_name ex_signup_bob, u_email = b_email ex_signup_bob,
                u_photoURL = or_default default_photoURL (b_photoURL ex_signup_bob),
                u_role = or_default ''user'' (b_role ex_signup_bob)\<rparr>]
     \<and> response (user_post ''64b7f0c2a1d3e4f5a6b70003'' ex_signup_bob ex_users) =
         Some (201, UserDoc \<lparr>u_id = ''64b7f0c2a1d3e4f5a6b70003'', u_name = b_name ex_signup_bob, u_email = b_email ex_signup_bob,
                u_photoURL = or_default default_photoURL (b_photoURL ex_signup_bob),
                u_role = or_default ''user'' (b_role ex_signup_bob)\<rparr>)"
    by blast
  then have 2: "store_after (user_post ''64b7f0c2a1d3e4f5a6b70003'' ex_signup_bob ex_users) =
        ex_users @ [\<lparr>u_id = ''64b7f0c2a1d3e4f5a6b70003'', u_name = ''Bob'', u_email = ''bob@shop.io'',
          u_photoURL = Some ''https://daisyui.com/images/stock/photo-1534528741775-53994a69daeb.jpg'',
          u_role = Some ''user''\<rparr>]
   \<and> response (user_post ''64b7f0c2a1d3e4f5a6b70003'' ex_signup_bob ex_users) =
        Some (201, UserDoc \<lparr>u_id = ''64b7f0c2a1d3e4f5a6b70003'', u_name = ''Bob'', u_email = ''bob@shop.io'',
          u_photoURL = Some ''https://daisyui.com/images/stock/photo-1534528741775-53994a69daeb.jpg'',
          u_role = Some ''user''\<rparr>)"
    by (simp add: ex_signup_bob_def or_default_def default_photoURL_def)
  from ann bob 1 2 show ?thesis by blast
qed

section \<open>Asking whether a user is an admin\<close>

text \<open>
  Claim C7. For every email, \<^verbatim>\<open>GET /users/admin/:email\<close> looks the user up by email.
  When a user is found, the response is 200 with \<open>isAdmin\<close> true exactly when the role
  of that user is "admin"; when no user has that email, reading the role of \<^verbatim>\<open>null\<close>
  throws, and the response is 500 with the message of that error. The collection is
  unchanged in both cases.
\<close>

theorem user_get_admin_correct:
  "(findOne (\<lambda>d. u_email d = email) ds = Some user \<longrightarrow>
       response (user_get_admin email ds) = Some (200, IsAdmin (u_role user = Some ''admin'')))
   \<and> ((\<forall>d\<in>set ds. u_email d \<noteq> email) \<longrightarrow>
       response (user_get_admin email ds) =
         Some (500, Message (message (TypeError_null ''role''))))
   \<and> store_after (user_get_admin email ds) = ds
   \<and> uncaught (user_get_admin email ds) = None"
proof -
  have found: "response (user_get_admin email ds) = Some (200, IsAdmin (u_role user = Some ''admin''))
      \<and> uncaught (user_get_admin email ds) = None"
    if "findOne (\<lambda>d. u_email d = email) ds = Some user"
    using that by (simp add: user_get_admin_def handle_json response_def uncaught_def)
  have absent: "response (user_get_admin email ds) =
        Some (500, Message (message (TypeError_null ''role'')))
      \<and> uncaught (user_get_admin email ds) = None"
    if "findOne (\<lambda>d. u_email d = email) ds = None"
    using that by (simp add: user_get_admin_def handle_throw response_def uncaught_def)
  have store: "store_after (user_get_admin email ds) = ds"
    by (simp add: user_get_admin_def store_after_def)
  have "uncaught (user_get_admin email ds) = None"
    by (simp add: user_get_admin_def handle_json handle_throw uncaught_def split: option.split)
  with found absent store show ?thesis
    by (simp add: findOne_None)
qed

theorem user_get_admin_witness:
  "findOne (\<lambda>d. u_email d = ''root@shop.io'') ex_users = Some ex_user_root
   \<and> response (user_get_admin ''root@shop.io'' ex_users) = Some (200, IsAdmin True)
   \<and> findOne (\<lambda>d. u_email d = ''ann@shop.io'') ex_users = Some ex_user_ann
   \<and> response (user_get_admin ''ann@shop.io'' ex_users) = Some (200, IsAdmin False)
   \<and> \<not> (\<exists>d\<in>set ex_users. u_email d = ''eve@shop.io'')
   \<and> response (user_get_admin ''eve@shop.io'' ex_users) =
        Some (500, Message ''Cannot read properties of null (reading 'role')'')"
proof -
  have root: "findOne (\<lambda>d. u_email d = ''root@shop.io'') ex_users = Some ex_user_root"
    by (simp add: ex_user_defs findOne_def)
  have ann: "findOne (\<lambda>d. u_email d = ''ann@shop.io'') ex_users = Some ex_user_ann"
    by (simp add: ex_user_defs findOne_def)
  have eve: "\<forall>d\<in>set ex_users. u_email d \<noteq> ''eve@shop.io''"
    by (simp add: ex_user_defs)
  from root user_get_admin_correct [of "''root@shop.io''" ex_users ex_user_root]
  have "response (user_get_admin ''root@shop.io'' ex_users) =
      Some (200, IsAdmin (u_role ex_user_root = Some ''admin''))"
    by blast
  then have 1: "response (user_get_admin ''root@shop.io'' ex_users) = Some (200, IsAdmin True)"
    by (simp add: ex_user_root_def)
  from ann user_get_admin_correct [of "''ann@shop.io''" ex_users ex_user_ann]
  have "response (user_get_admin ''ann@shop.io'' ex_users) =
      Some (200, IsAdmin (u_role ex_user_ann = Some ''admin''))"
    by blast
  then have 2: "response (user_get_admin ''ann@shop.io'' ex_users) = Some (200, IsAdmin False)"
    by (simp add: ex_user_ann_def)
  from eve user_get_admin_correct [of "''eve@shop.io''" ex_users ex_user_root]
  have "response (user_get_admin ''eve@shop.io'' ex_users) =
      Some (500, Message (message (TypeError_null ''role'')))"
    by blast
  then have 3: "response (user_get_admin ''eve@shop.io'' ex_users) =
        Some (500, Message ''Cannot read properties of null (reading 'role')'')"
    by simp
  from root ann eve 1 2 3 show ?thesis by blast
qed

section \<open>The example cast\<close>

lemma hex_ObjectId_unknown_user:
  "hex_ObjectId ''User'' ''64b7f0c2a1d3e4f5a6b70009'' = Inr ''64b7f0c2a1d3e4f5a6b70009''"
  by (simp add: hex_ObjectId_def hex_digit_def)

lemma hex_ObjectId_laptop:
  "hex_ObjectId ''Product'' ''64B7F0C2A1D3E4F5A6B7C001'' = Inr ''64b7f0c2a1d3e4f5a6b7c001''"
  by (simp add: hex_ObjectId_def hex_digit_def)

lemma hex_ObjectId_unknown_product:
  "hex_ObjectId ''Product'' ''64b7f0c2a1d3e4f5a6b7c003'' = Inr ''64b7f0c2a1d3e4f5a6b7c003''"
  by (simp add: hex_ObjectId_def hex_digit_def)

lemma hex_ObjectId_short:
  "hex_ObjectId model ''p3'' =
     Inl (''Cast to ObjectId failed for value '' @ [CHR 0x22] @ ''p3'' @ [CHR 0x22]
          @ '' (type string) at path '' @ [CHR 0x22] @ ''_id'' @ [CHR 0x22]
          @ '' for model '' @ [CHR 0x22] @ model @ [CHR 0x22])"
  by (simp add: hex_ObjectId_def)

section \<open>Getting a user by id\<close>

lemma user_get_by_id_absent:
  "castObjectId i = Inr k \<Longrightarrow> findById u_id k ds = None \<Longrightarrow>
   user_get_by_id castObjectId i ds =
     (ds, Some ERR_HTTP_HEADERS_SENT,
      \<lparr>statusCode = 500, sent = Some (404, Message ''User is not found'')\<rparr>)"
  by (simp add: user_get_by_id_def falsy_doc_def json_user_def handle_json_twice)

lemma user_get_by_id_present:
  "castObjectId i = Inr k \<Longrightarrow> findById u_id k ds = Some user \<Longrightarrow>
   user_get_by_id castObjectId i ds =
     (ds, None, \<lparr>statusCode = 200, sent = Some (200, UserDoc user)\<rparr>)"
  by (simp add: user_get_by_id_def falsy_doc_def json_user_def handle_skip_json)

lemma user_get_by_id_no_ObjectId:
  "castObjectId i = Inl m \<Longrightarrow>
   user_get_by_id castObjectId i ds =
     (ds, None, \<lparr>statusCode = 500, sent = Some (500, Message m)\<rparr>)"
  by (simp add: user_get_by_id_def handle_throw)

text \<open>
  Claim C8, as the specification states it: for every id with no matching user, the
  result of \<^verbatim>\<open>GET /users/:id\<close> is 200 with a null body. It fails: the handler sends
  404 "User is not found" first, and a response is sent once. With a driver that takes
  the strings of 24 hexadecimal digits as ObjectIds, the id below is an ObjectId, no
  user of the example collection has it, and the response is not 200 with a null body.
\<close>

theorem user_get_by_id_not_200_null:
  "hex_ObjectId ''User'' ''64b7f0c2a1d3e4f5a6b70009'' = Inr ''64b7f0c2a1d3e4f5a6b70009''
   \<and> findById u_id ''64b7f0c2a1d3e4f5a6b70009'' ex_users = None
   \<and> response (user_get_by_id (hex_ObjectId ''User'') ''64b7f0c2a1d3e4f5a6b70009'' ex_users)
        \<noteq> Some (200, Null)
   \<and> response (user_get_by_id (hex_ObjectId ''User'') ''64b7f0c2a1d3e4f5a6b70009'' ex_users)
        = Some (404, Message ''User is not found'')"
proof -
  have none: "findById u_id ''64b7f0c2a1d3e4f5a6b70009'' ex_users = None"
    by (simp add: findById_def findOne_def ex_user_defs)
  from hex_ObjectId_unknown_user none
  have "response (user_get_by_id (hex_ObjectId ''User'') ''64b7f0c2a1d3e4f5a6b70009'' ex_users)
        = Some (404, Message ''User is not found'')"
    by (simp add: user_get_by_id_absent response_def)
  with hex_ObjectId_unknown_user none show ?thesis by simp
qed

text \<open>
  Claim C8, amended. For every id with no matching user: when the id is an ObjectId,
  \<^verbatim>\<open>GET /users/:id\<close> responds 404 with the message "User is not found"; when the id is
  not an ObjectId, the lookup throws and the response is 500 with the message of that
  error. Whatever the id, the response is not 200 with a null body, and the collection
  is unchanged.
\<close>

theorem user_get_by_id_missing:
  "(castObjectId i = Inr k \<and> findById u_id k ds = None \<longrightarrow>
       response (user_get_by_id castObjectId i ds) = Some (404, Message ''User is not found''))
   \<and> (castObjectId i = Inl m \<longrightarrow>
       response (user_get_by_id castObjectId i ds) = Some (500, Message m))
   \<and> response (user_get_by_id castObjectId i ds) \<noteq> Some (200, Null)
   \<and> store_after (user_get_by_id castObjectId i ds) = ds"
proof -
  have absent: "response (user_get_by_id castObjectId i ds) = Some (404, Message ''User is not found'')"
    if "castObjectId i = Inr k" and "findById u_id k ds = None"
    using that by (simp add: user_get_by_id_absent response_def)
  have no_id: "response (user_get_by_id castObjectId i ds) = Some (500, Message m)"
    if "castObjectId i = Inl m"
    using that by (simp add: user_get_by_id_no_ObjectId response_def)
  have never: "response (user_get_by_id castObjectId i ds) \<noteq> Some (200, Null)"
  proof (cases "castObjectId i")
    case (Inl e)
    then show ?thesis by (simp add: user_get_by_id_no_ObjectId response_def)
  next
    case (Inr j)
    then show ?thesis
      by (cases "findById u_id j ds")
        (simp_all add: user_get_by_id_absent user_get_by_id_present response_def)
  qed
  have store: "store_after (user_get_by_id castObjectId i ds) = ds"
    by (simp add: user_get_by_id_def store_after_def)
  from absent no_id never store show ?thesis by blast
qed

theorem user_get_by_id_missing_witness:
  "hex_ObjectId ''User'' ''64b7f0c2a1d3e4f5a6b70009'' = Inr ''64b7f0c2a1d3e4f5a6b70009''
   \<and> findById u_id ''64b7f0c2a1d3e4f5a6b70009'' ex_users = None
   \<and> response (user_get_by_id (hex_ObjectId ''User'') ''64b7f0c2a1d3e4f5a6b70009'' ex_users)
        = Some (404, Message ''User is not found'')
   \<and> map_option fst (response (user_get_by_id (hex_ObjectId ''User'') ''p3'' ex_users)) = Some 500
   \<and> store_after (user_get_by_id (hex_ObjectId ''User'') ''p3'' ex_users) = ex_users"
proof -
  have none: "findById u_id ''64b7f0c2a1d3e4f5a6b70009'' ex_users = None"
    by (simp add: findById_def findOne_def ex_user_defs)
  from hex_ObjectId_unknown_user none
    user_get_by_id_missing [of "hex_ObjectId ''User''" "''64b7f0c2a1d3e4f5a6b70009''"
      "''64b7f0c2a1d3e4f5a6b70009''" ex_users]
  have 1: "response (user_get_by_id (hex_ObjectId ''User'') ''64b7f0c2a1d3e4f5a6b70009'' ex_users)
        = Some (404, Message ''User is not found'')"
    by blast
  from hex_ObjectId_short [of "''User''"]
    user_get_by_id_missing [of "hex_ObjectId ''User''" "''p3''" _ ex_users]
  have "\<exists>m. response (user_get_by_id (hex_ObjectId ''User'') ''p3'' ex_users) = Some (500, Message m)"
    by blast
  then have 2: "map_option fst (response (user_get_by_id (hex_ObjectId ''User'') ''p3'' ex_users)) = Some 500"
    by auto
  from user_get_by_id_missing [of "hex_ObjectId ''User''" "''p3''" _ ex_users]
  have 3: "store_after (user_get_by_id (hex_ObjectId ''User'') ''p3'' ex_users) = ex_users"
    by blast
  from hex_ObjectId_unknown_user none 1 2 3 show ?thesis by blast
qed

section \<open>Deleting a product\<close>

lemma deleteOne_found:
  "findOne q ds = Some d \<Longrightarrow> deleteOne q ds = remove1 d ds"
proof (induction ds)
  case Nil
  then show ?case by (simp add: findOne_def)
next
  case (Cons x xs)
  show ?case
  proof (cases "q x")
    case True
    with Cons.prems show ?thesis by (simp add: findOne_def)
  next
    case False
    with Cons.prems have f: "findOne q xs = Some d" by (simp add: findOne_def)
    then have "q d" by (simp add: findOne_Some)
    with False have "x \<noteq> d" by blast
    with False f Cons.IH show ?thesis by simp
  qed
qed

lemma product_delete_no_ObjectId:
  "castObjectId i = Inl m \<Longrightarrow>
   product_delete castObjectId i ds =
     (ds, None, \<lparr>statusCode = 500, sent = Some (500, Message m)\<rparr>)"
  by (simp add: product_delete_def handle_throw)

text \<open>
  Claim C9, as the specification states it: for every product id, when no product has
  that id, \<^verbatim>\<open>DELETE /products/:id\<close> responds 404. It fails for an id that is not an
  ObjectId: no product of the example collection has the id \<open>p3\<close>, and the response
  to it is 500, not 404.
\<close>

theorem product_delete_p3_not_404:
  "map p_id ex_products = [''64b7f0c2a1d3e4f5a6b7c001'', ''64b7f0c2a1d3e4f5a6b7c002'']
   \<and> map_option fst (response (product_delete (hex_ObjectId ''Product'') ''p3'' ex_products)) = Some 500
   \<and> response (product_delete (hex_ObjectId ''Product'') ''p3'' ex_products)
        \<noteq> Some (404, Message ''Product not found'')
   \<and> store_after (product_delete (hex_ObjectId ''Product'') ''p3'' ex_products) = ex_products"
proof -
  have "map p_id ex_products = [''64b7f0c2a1d3e4f5a6b7c001'', ''64b7f0c2a1d3e4f5a6b7c002'']"
    by (simp add: ex_product_defs)
  moreover from hex_ObjectId_short [of "''Product''"]
  have "\<exists>m. product_delete (hex_ObjectId ''Product'') ''p3'' ex_products =
      (ex_products, None, \<lparr>statusCode = 500, sent = Some (500, Message m)\<rparr>)"
    using product_delete_no_ObjectId [of "hex_ObjectId ''Product''" "''p3''" _ ex_products]
    by blast
  ultimately show ?thesis
    by (auto simp: response_def store_after_def)
qed

text \<open>
  Claim C9, amended. For every product id that is an ObjectId, \<^verbatim>\<open>DELETE /products/:id\<close>:
  when a product with that id exists (\<open>d\<close> is the one that the lookup finds), the
  collection afterwards is the collection before with that one document removed, which,
  the ids being distinct, is the collection of the products with another id, and the
  response is 200 with \<open>d\<close>; when no product has that id, the response is 404 and the
  collection is unchanged. For an id that is not an ObjectId, the lookup throws, the
  response is 500 with the message of that error, and the collection is unchanged.
\<close>

theorem product_delete_correct:
  "(castObjectId i = Inr k \<and> findById p_id k ds = Some d \<longrightarrow>
       store_after (product_delete castObjectId i ds) = remove1 d ds
     \<and> d \<in> set ds \<and> p_id d = k
     \<and> (distinct (map p_id ds) \<longrightarrow>
          store_after (product_delete castObjectId i ds) = filter (\<lambda>x. p_id x \<noteq> k) ds)
     \<and> response (product_delete castObjectId i ds) = Some (200, ProductDoc d))
   \<and> (castObjectId i = Inr k \<and> (\<forall>x\<in>set ds. p_id x \<noteq> k) \<longrightarrow>
       store_after (product_delete castObjectId i ds) = ds
     \<and> response (product_delete castObjectId i ds) = Some (404, Message ''Product not found''))
   \<and> (castObjectId i = Inl m \<longrightarrow>
       store_after (product_delete castObjectId i ds) = ds
     \<and> response (product_delete castObjectId i ds) = Some (500, Message m))"
proof -
  have found: "store_after (product_delete castObjectId i ds) = remove1 d ds
     \<and> d \<in> set ds \<and> p_id d = k
     \<and> (distinct (map p_id ds) \<longrightarrow>
          store_after (product_delete castObjectId i ds) = filter (\<lambda>x. p_id x \<noteq> k) ds)
     \<and> response (product_delete castObjectId i ds) = Some (200, ProductDoc d)"
    if c: "castObjectId i = Inr k" and f: "findById p_id k ds = Some d"
  proof -
    from f have one: "findOne (\<lambda>x. p_id x = k) ds = Some d"
      by (simp add: findById_def)
    from c have store: "store_after (product_delete castObjectId i ds) = deleteOne (\<lambda>x. p_id x = k) ds"
      by (simp add: product_delete_def findByIdAndDelete_def store_after_def split: option.split)
    from one have "deleteOne (\<lambda>x. p_id x = k) ds = remove1 d ds"
      by (rule deleteOne_found)
    with store have 1: "store_after (product_delete castObjectId i ds) = remove1 d ds" by simp
    from one have 2: "d \<in> set ds \<and> p_id d = k"
      using findOne_Some [of "\<lambda>x. p_id x = k" ds d] by simp
    from store have 3: "distinct (map p_id ds) \<longrightarrow>
          store_after (product_delete castObjectId i ds) = filter (\<lambda>x. p_id x \<noteq> k) ds"
      by (simp add: deleteOne_by_id)
    from c f have 4: "response (product_delete castObjectId i ds) = Some (200, ProductDoc d)"
      by (simp add: product_delete_def findByIdAndDelete_def handle_json response_def)
    from 1 2 3 4 show ?thesis by blast
  qed
  have absent: "store_after (product_delete castObjectId i ds) = ds
     \<and> response (product_delete castObjectId i ds) = Some (404, Message ''Product not found'')"
    if c: "castObjectId i = Inr k" and n: "\<forall>x\<in>set ds. p_id x \<noteq> k"
  proof -
    from n have f: "findById p_id k ds = None"
      by (simp add: findById_def findOne_None)
    from n have "deleteOne (\<lambda>x. p_id x = k) ds = ds"
      by (simp add: deleteOne_no_match)
    with c f show ?thesis
      by (simp add: product_delete_def findByIdAndDelete_def handle_status_json response_def
          store_after_def)
  qed
  have no_id: "store_after (product_delete castObjectId i ds) = ds
     \<and> response (product_delete castObjectId i ds) = Some (500, Message m)"
    if "castObjectId i = Inl m"
    using that by (simp add: product_delete_no_ObjectId response_def store_after_def)
  from found absent no_id show ?thesis by blast
qed

theorem product_delete_witness:
  "hex_ObjectId ''Product'' ''64B7F0C2A1D3E4F5A6B7C001'' = Inr ''64b7f0c2a1d3e4f5a6b7c001''
   \<and> findById p_id ''64b7f0c2a1d3e4f5a6b7c001'' ex_products = Some ex_product_laptop
   \<and> distinct (map p_id ex_products)
   \<and> store_after (product_delete (hex_ObjectId ''Product'') ''64B7F0C2A1D3E4F5A6B7C001'' ex_products)
        = [ex_product_mouse]
   \<and> response (product_delete (hex_ObjectId ''Product'') ''64B7F0C2A1D3E4F5A6B7C001'' ex_products)
        = Some (200, ProductDoc ex_product_laptop)
   \<and> hex_ObjectId ''Product'' ''64b7f0c2a1d3e4f5a6b7c003'' = Inr ''64b7f0c2a1d3e4f5a6b7c003''
   \<and> \<not> (\<exists>x\<in>set ex_products. p_id x = ''64b7f0c2a1d3e4f5a6b7c003'')
   \<and> store_after (product_delete (hex_ObjectId ''Product'') ''64b7f0c2a1d3e4f5a6b7c003'' ex_products)
        = ex_products
   \<and> response (product_delete (hex_ObjectId ''Product'') ''64b7f0c2a1d3e4f5a6b7c003'' ex_products)
        = Some (404, Message ''Product not found'')
   \<and> store_after (product_delete (hex_ObjectId ''Product'') ''p3'' ex_products) = ex_products
   \<and> map_option fst (response (product_delete (hex_ObjectId ''Product'') ''p3'' ex_products)) = Some 500"
proof -
  have f: "findById p_id ''64b7f0c2a1d3e4f5a6b7c001'' ex_products = Some ex_product_laptop"
    by (simp add: findById_def findOne_def ex_product_defs)
  have ids: "distinct (map p_id ex_products)"
    by (simp add: ex_product_defs)
  have n: "\<forall>x\<in>set ex_products. p_id x \<noteq> ''64b7f0c2a1d3e4f5a6b7c003''"
    by (simp add: ex_product_defs)
  from hex_ObjectId_laptop f ids
    product_delete_correct [of "hex_ObjectId ''Product''" "''64B7F0C2A1D3E4F5A6B7C001''"
      "''64b7f0c2a1d3e4f5a6b7c001''" ex_products ex_product_laptop]
  have "store_after (product_delete (hex_ObjectId ''Product'') ''64B7F0C2A1D3E4F5A6B7C001'' ex_products)
          = filter (\<lambda>x. p_id x \<noteq> ''64b7f0c2a1d3e4f5a6b7c001'') ex_products
      \<and> response (product_delete (hex_ObjectId ''Product'') ''64B7F0C2A1D3E4F5A6B7C001'' ex_products)
          = Some (200, ProductDoc ex_product_laptop)"
    by blast
  then have 1: "store_after (product_delete (hex_ObjectId ''Product'') ''64B7F0C2A1D3E4F5A6B7C001'' ex_products)
          = [ex_product_mouse]
      \<and> response (product_delete (hex_ObjectId ''Product'') ''64B7F0C2A1D3E4F5A6B7C001'' ex_products)
          = Some (200, ProductDoc ex_product_laptop)"
    by (simp add: ex_product_defs)
  from hex_ObjectId_unknown_product n
    product_delete_correct [of "hex_ObjectId ''Product''" "''64b7f0c2a1d3e4f5a6b7c003''"
      "''64b7f0c2a1d3e4f5a6b7c003''" ex_products]
  have 2: "store_after (product_delete (hex_ObjectId ''Product'') ''64b7f0c2a1d3e4f5a6b7c003'' ex_products)
          = ex_products
      \<and> response (product_delete (hex_ObjectId ''Product'') ''64b7f0c2a1d3e4f5a6b7c003'' ex_products)
          = Some (404, Message ''Product not found'')"
    by blast
  from hex_ObjectId_short [of "''Product''"]
    product_delete_correct [of "hex_ObjectId ''Product''" "''p3''" _ ex_products]
  have "\<exists>m. store_after (product_delete (hex_ObjectId ''Product'') ''p3'' ex_products) = ex_products
      \<and> response (product_delete (hex_ObjectId ''Product'') ''p3'' ex_products) = Some (500, Message m)"
    by blast
  then have 3: "store_after (product_delete (hex_ObjectId ''Product'') ''p3'' ex_products) = ex_products
      \<and> map_option fst (response (product_delete (hex_ObjectId ''Product'') ''p3'' ex_products)) = Some 500"
    by auto
  from hex_ObjectId_laptop hex_ObjectId_unknown_product f ids n 1 2 3 show ?thesis by blast
qed

end
